theory Spec2Isabelle
  imports Complex_Main "HOL-Library.AList" "HOL-Library.Multiset"
begin

section \<open>Data model (api/pkg/models)\<close>

text \<open>
  A Go value of type \<open>any\<close> as it occurs in node metadata and node outputs. A
  \<open>float64\<close> is modelled by the real number it denotes (NaN and the infinities are
  outside the model); a \<open>map[string]any\<close> is an association list read with
  \<open>map_of\<close>, a nil map being the empty list.
\<close>

datatype val =
    VNil
  | VBool bool
  | VInt int
  | VFloat real
  | VStr string
  | VList "val list"
  | VMap "(string \<times> val) list"

type_synonym data_bag = "(string \<times> val) list"

text \<open>models.NodeType and its six constants.\<close>

definition NodeTypeStart :: string where "NodeTypeStart = ''start''"
definition NodeTypeForm :: string where "NodeTypeForm = ''form''"
definition NodeTypeIntegration :: string where "NodeTypeIntegration = ''integration''"
definition NodeTypeCondition :: string where "NodeTypeCondition = ''condition''"
definition NodeTypeEmail :: string where "NodeTypeEmail = ''email''"
definition NodeTypeEnd :: string where "NodeTypeEnd = ''end''"

lemmas NodeType_defs = NodeTypeStart_def NodeTypeForm_def NodeTypeIntegration_def
  NodeTypeCondition_def NodeTypeEmail_def NodeTypeEnd_def

text \<open>models.Operator and its five constants.\<close>

definition OperatorGreaterThan :: string where "OperatorGreaterThan = ''greater_than''"
definition OperatorLessThan :: string where "OperatorLessThan = ''less_than''"
definition OperatorEquals :: string where "OperatorEquals = ''equals''"
definition OperatorGreaterThanOrEqual :: string where
  "OperatorGreaterThanOrEqual = ''greater_than_or_equal''"
definition OperatorLessThanOrEqual :: string where
  "OperatorLessThanOrEqual = ''less_than_or_equal''"

lemmas Operator_defs = OperatorGreaterThan_def OperatorLessThan_def OperatorEquals_def
  OperatorGreaterThanOrEqual_def OperatorLessThanOrEqual_def

text \<open>models.Status.\<close>

datatype status = StatusCompleted | StatusFailed | StatusRunning

text \<open>models.NodeID: the literal node ids the node variants read prior outputs under.\<close>

definition NodeIDForm :: string where "NodeIDForm = ''form''"
definition NodeIDWeatherAPI :: string where "NodeIDWeatherAPI = ''weather-api''"
definition NodeIDCondition :: string where "NodeIDCondition = ''condition''"

lemmas NodeID_defs = NodeIDForm_def NodeIDWeatherAPI_def NodeIDCondition_def

text \<open>
  models.Node with its NodeData flattened in; the database keys and the canvas position
  take no part in validation or execution and are left out.
\<close>

record node_model =
  n_ID :: string
  n_Type :: string
  n_Label :: string
  n_Description :: string
  n_Metadata :: data_bag

text \<open>models.Edge; the display-only fields are left out.\<close>

record edge_model =
  e_ID :: string
  e_Source :: string
  e_Target :: string
  e_SourceHandle :: string

text \<open>models.Workflow.\<close>

record workflow =
  w_ID :: string
  w_Name :: string
  w_Version :: int
  w_Nodes :: "node_model list"
  w_Edges :: "edge_model list"

text \<open>models.WorkflowInput (the inline workflow override is not read by the engine).\<close>

record workflow_input =
  i_Name :: string
  i_Email :: string
  i_City :: string
  i_Threshold :: real
  i_Operator :: string

section \<open>Graph validator (api/internal/workflow/workflow.go)\<close>

text \<open>The sentinel errors \<open>validateWorkflowStructure\<close> returns, with the values it formats in.\<close>

datatype wf_error =
    ErrInvalidWorkflowStructure
  | ErrEmptyNodeID
  | ErrDuplicateNodeID string
  | ErrInvalidNodeType string
  | ErrMissingStartNode
  | ErrMissingEndNode
  | ErrStartNodePosition
  | ErrEndNodePosition
  | ErrEmptyEdgeID
  | ErrDuplicateEdgeID string
  | ErrInvalidEdgeConnection string
  | ErrEdgeToUnknownNode string string

text \<open>The local variables of the node loop.\<close>

record node_scan =
  hasStart :: bool
  hasEnd :: bool
  startNodeIndex :: int
  endNodeIndex :: int
  nodeIDs :: "string set"

definition scan_init :: node_scan where
  "scan_init = \<lparr>hasStart = False, hasEnd = False, startNodeIndex = -1, endNodeIndex = -1,
                 nodeIDs = {}\<rparr>"

text \<open>The body of \<open>for i, node := range nodes\<close>: one iteration, then the rest.\<close>

fun scan_nodes :: "node_model list \<Rightarrow> int \<Rightarrow> node_scan \<Rightarrow> wf_error + node_scan" where
  "scan_nodes [] i s = Inr s"
| "scan_nodes (n # ns) i s =
     (let s1 = (if n_Type n = NodeTypeStart then s\<lparr>hasStart := True, startNodeIndex := i\<rparr> else s);
          s2 = (if n_Type n = NodeTypeEnd then s1\<lparr>hasEnd := True, endNodeIndex := i\<rparr> else s1)
      in if n_ID n = [] then Inl ErrEmptyNodeID
         else if n_ID n \<in> nodeIDs s2 then Inl (ErrDuplicateNodeID (n_ID n))
         else if n_Type n = [] then Inl (ErrInvalidNodeType (n_ID n))
         else scan_nodes ns (i + 1) (s2\<lparr>nodeIDs := insert (n_ID n) (nodeIDs s2)\<rparr>))"

text \<open>The body of \<open>for _, edge := range edges\<close>, with the set of edge ids seen so far.\<close>

fun scan_edges :: "string set \<Rightarrow> edge_model list \<Rightarrow> string set \<Rightarrow> wf_error option" where
  "scan_edges ids [] seen = None"
| "scan_edges ids (e # es) seen =
     (if e_ID e = [] then Some ErrEmptyEdgeID
      else if e_ID e \<in> seen then Some (ErrDuplicateEdgeID (e_ID e))
      else if e_Source e = [] \<or> e_Target e = [] then Some (ErrInvalidEdgeConnection (e_ID e))
      else if e_Source e \<notin> ids then Some (ErrEdgeToUnknownNode (e_ID e) (e_Source e))
      else if e_Target e \<notin> ids then Some (ErrEdgeToUnknownNode (e_ID e) (e_Target e))
      else scan_edges ids es (insert (e_ID e) seen))"

text \<open>\<open>validateWorkflowStructure\<close>: \<open>None\<close> is the nil error.\<close>

definition validateWorkflowStructure :: "node_model list \<Rightarrow> edge_model list \<Rightarrow> wf_error option" where
  "validateWorkflowStructure nodes edges =
     (if length nodes = 0 then Some ErrInvalidWorkflowStructure
      else case scan_nodes nodes 0 scan_init of
        Inl err \<Rightarrow> Some err
      | Inr s \<Rightarrow>
          if \<not> hasStart s then Some ErrMissingStartNode
          else if \<not> hasEnd s then Some ErrMissingEndNode
          else if startNodeIndex s \<noteq> 0 then Some ErrStartNodePosition
          else if endNodeIndex s \<noteq> int (length nodes) - 1 then Some ErrEndNodePosition
          else scan_edges (nodeIDs s) edges {})"

subsection \<open>The invariants, as predicates on the lists\<close>

definition is_start :: "node_model \<Rightarrow> bool" where "is_start n = (n_Type n = NodeTypeStart)"

definition is_end :: "node_model \<Rightarrow> bool" where "is_end n = (n_Type n = NodeTypeEnd)"

text \<open>Every node id is non-empty and unique; every node has a non-empty type.\<close>

definition nodes_wellformed :: "node_model list \<Rightarrow> bool" where
  "nodes_wellformed ns = ((\<forall>n\<in>set ns. n_ID n \<noteq> [] \<and> n_Type n \<noteq> []) \<and> distinct (map n_ID ns))"

text \<open>
  Every edge id is non-empty and unique; source and target are non-empty and are ids of
  the node list (\<open>ids\<close>).
\<close>

definition edges_wellformed :: "string set \<Rightarrow> edge_model list \<Rightarrow> bool" where
  "edges_wellformed ids es =
     ((\<forall>e\<in>set es. e_ID e \<noteq> [] \<and> e_Source e \<noteq> [] \<and> e_Target e \<noteq> [] \<and>
                    e_Source e \<in> ids \<and> e_Target e \<in> ids) \<and> distinct (map e_ID es))"


text \<open>
  The invariants of the specification, in its words: at least one node; exactly one
  start-type node, the first element; exactly one end-type node, the last element; the
  node and the edge invariants.
\<close>

definition spec_invariants :: "node_model list \<Rightarrow> edge_model list \<Rightarrow> bool" where
  "spec_invariants ns es =
     (ns \<noteq> [] \<and>
      length (filter is_start ns) = 1 \<and> is_start (hd ns) \<and>
      length (filter is_end ns) = 1 \<and> is_end (last ns) \<and>
      nodes_wellformed ns \<and>
      edges_wellformed (n_ID ` set ns) es)"

text \<open>
  What the validator enforces: as above, except that of the end-type nodes only the
  position of the last one is checked.
\<close>

definition accepted_graph :: "node_model list \<Rightarrow> edge_model list \<Rightarrow> bool" where
  "accepted_graph ns es =
     (ns \<noteq> [] \<and> nodes_wellformed ns \<and>
      is_start (hd ns) \<and> (\<forall>n\<in>set (tl ns). \<not> is_start n) \<and>
      is_end (last ns) \<and>
      edges_wellformed (n_ID ` set ns) es)"

text \<open>The invariant each error stands for.\<close>

fun violated_by :: "wf_error \<Rightarrow> node_model list \<Rightarrow> edge_model list \<Rightarrow> bool" where
  "violated_by ErrInvalidWorkflowStructure ns es = (ns = [])"
| "violated_by ErrEmptyNodeID ns es = (\<exists>n\<in>set ns. n_ID n = [])"
| "violated_by (ErrDuplicateNodeID x) ns es = (1 < length (filter (\<lambda>n. n_ID n = x) ns))"
| "violated_by (ErrInvalidNodeType x) ns es = (\<exists>n\<in>set ns. n_ID n = x \<and> n_Type n = [])"
| "violated_by ErrMissingStartNode ns es = (\<forall>n\<in>set ns. \<not> is_start n)"
| "violated_by ErrMissingEndNode ns es = (\<forall>n\<in>set ns. \<not> is_end n)"
| "violated_by ErrStartNodePosition ns es = (\<not> (is_start (hd ns) \<and> (\<forall>n\<in>set (tl ns). \<not> is_start n)))"
| "violated_by ErrEndNodePosition ns es = (\<not> is_end (last ns))"
| "violated_by ErrEmptyEdgeID ns es = (\<exists>e\<in>set es. e_ID e = [])"
| "violated_by (ErrDuplicateEdgeID x) ns es = (1 < length (filter (\<lambda>e. e_ID e = x) es))"
| "violated_by (ErrInvalidEdgeConnection x) ns es =
     (\<exists>e\<in>set es. e_ID e = x \<and> (e_Source e = [] \<or> e_Target e = []))"
| "violated_by (ErrEdgeToUnknownNode x y) ns es =
     (\<exists>e\<in>set es. e_ID e = x \<and> (e_Source e = y \<or> e_Target e = y) \<and> y \<notin> n_ID ` set ns)"



subsection \<open>Sample graphs\<close>

definition valid_nodes :: "node_model list" where
  "valid_nodes =
     [\<lparr>n_ID = ''start'', n_Type = ''start'', n_Label = ''Start'', n_Description = [], n_Metadata = []\<rparr>,
      \<lparr>n_ID = ''form'', n_Type = ''form'', n_Label = ''Form'', n_Description = [], n_Metadata = []\<rparr>,
      \<lparr>n_ID = ''end'', n_Type = ''end'', n_Label = ''End'', n_Description = [], n_Metadata = []\<rparr>]"

definition valid_edges :: "edge_model list" where
  "valid_edges =
     [\<lparr>e_ID = ''e1'', e_Source = ''start'', e_Target = ''form'', e_SourceHandle = []\<rparr>,
      \<lparr>e_ID = ''e2'', e_Source = ''form'', e_Target = ''end'', e_SourceHandle = []\<rparr>]"

definition two_end_nodes :: "node_model list" where
  "two_end_nodes =
     [\<lparr>n_ID = ''start'', n_Type = ''start'', n_Label = ''Start'', n_Description = [], n_Metadata = []\<rparr>,
      \<lparr>n_ID = ''end-a'', n_Type = ''end'', n_Label = ''End A'', n_Description = [], n_Metadata = []\<rparr>,
      \<lparr>n_ID = ''end-b'', n_Type = ''end'', n_Label = ''End B'', n_Description = [], n_Metadata = []\<rparr>]"


section \<open>Library functions the nodes call\<close>

text \<open>
  \<open>strings.ReplaceAll\<close> (and \<open>strings.Replace\<close> with count -1): every non-overlapping
  occurrence of \<open>old\<close>, from the left. Every call site passes a non-empty \<open>old\<close>; for an
  empty one the model leaves the string as it is.
\<close>

definition has_prefix :: "string \<Rightarrow> string \<Rightarrow> bool" where
  "has_prefix s p = (take (length p) s = p)"

function replace_all :: "string \<Rightarrow> string \<Rightarrow> string \<Rightarrow> string" where
  "replace_all [] old new = []"
| "replace_all (c # cs) old new =
     (if old \<noteq> [] \<and> has_prefix (c # cs) old
      then new @ replace_all (drop (length old) (c # cs)) old new
      else c # replace_all cs old new)"
  by pat_completeness auto
termination
  by (relation "measure (\<lambda>(s, old, new). length s)") auto

text \<open>\<open>strings.Contains\<close>.\<close>

fun contains :: "string \<Rightarrow> string \<Rightarrow> bool" where
  "contains [] sub = (sub = [])"
| "contains (c # cs) sub = (has_prefix (c # cs) sub \<or> contains cs sub)"

text \<open>
  \<open>fmt.Sprintf\<close> with the verbs \<open>%d\<close> and \<open>%.Nf\<close> (\<open>%f\<close> is \<open>%.6f\<close>): decimal
  digits, and the value rounded to \<open>p\<close> decimals, ties to even.
\<close>

fun digits :: "nat \<Rightarrow> string" where
  "digits n = (if n < 10 then [''0123456789'' ! n]
               else digits (n div 10) @ [''0123456789'' ! (n mod 10)])"

declare digits.simps [simp del]

definition fmt_d :: "int \<Rightarrow> string" where
  "fmt_d i = (if i < 0 then ''-'' else []) @ digits (nat \<bar>i\<bar>)"

definition round_half_even :: "real \<Rightarrow> int" where
  "round_half_even y =
     (let f = \<lfloor>y\<rfloor>; d = y - of_int f
      in if d < 1 / 2 then f else if 1 / 2 < d then f + 1
         else if even f then f else f + 1)"

definition fmt_fixed :: "nat \<Rightarrow> real \<Rightarrow> string" where
  "fmt_fixed p x =
     (let t = nat (round_half_even (\<bar>x\<bar> * 10 ^ p));
          fs = digits (t mod 10 ^ p)
      in (if x < 0 then ''-'' else []) @ digits (t div 10 ^ p) @
         (if p = 0 then [] else ''.'' @ replicate (p - length fs) (CHR ''0'') @ fs))"

text \<open>The UTF-8 bytes of the non-ASCII literals of the source.\<close>

definition degree_C :: string where
  "degree_C = [CHR 0xC2, CHR 0xB0, CHR ''C'']"

section \<open>Node contract (api/pkg/node)\<close>

record base_node =
  b_ID :: string
  b_Label :: string
  b_Description :: string

record node_outputs =
  o_Data :: data_bag
  o_Status :: status
  o_StartedAt :: string
  o_EndedAt :: string
  o_NextNodeID :: string

text \<open>
  \<open>PriorOutputs\<close> is a Go map keyed by node id: an association list with distinct keys,
  read with \<open>map_of\<close> and written with \<open>AList.update\<close>.
\<close>

record node_inputs =
  in_WorkflowInput :: workflow_input
  in_NodeData :: data_bag
  in_PriorOutputs :: "(string \<times> node_outputs) list"

text \<open>
  What a run takes from outside the program: the wall clock (every reading within one
  run is the one value \<open>env_now\<close>, already in RFC 3339 form), the UUID source, the
  millisecond difference of two parsed timestamps, the outcome of building and of sending
  an HTTP request to a URL (a transport error, or a status code with the body decoded as
  a JSON object or the decoding error), \<open>fmt\<close>'s \<open>%v\<close> on values other than the ones
  \<open>processTemplate\<close> formats itself, and the order in which the runtime iterates over a
  map at its \<open>k\<close>-th \<open>range\<close> (Go leaves it unspecified).
\<close>

record env =
  env_now :: string
  env_uuid :: string
  env_millis_between :: "string \<Rightarrow> string \<Rightarrow> int"
  env_new_request_error :: "string \<Rightarrow> string option"
  env_http_do :: "string \<Rightarrow> string + (int \<times> (string + data_bag))"
  env_fmt_v :: "val \<Rightarrow> string"
  env_range_vars :: "nat \<Rightarrow> data_bag \<Rightarrow> data_bag"
  env_range_outputs :: "nat \<Rightarrow> (string \<times> node_outputs) list \<Rightarrow> (string \<times> node_outputs) list"

text \<open>The runtime's iteration orders are permutations of the map's entries.\<close>

definition range_is_permutation :: "env \<Rightarrow> bool" where
  "range_is_permutation e =
     ((\<forall>k m. mset (env_range_vars e k m) = mset m) \<and>
      (\<forall>k m. mset (env_range_outputs e k m) = mset m))"

text \<open>An error value a function returns, or a panic that unwinds the call.\<close>

datatype failure = Err string | Panic string

section \<open>Node variants (api/pkg/node/...)\<close>

subsection \<open>start\<close>

definition start_Execute :: "env \<Rightarrow> node_inputs \<Rightarrow> node_outputs \<times> string option" where
  "start_Execute e inputs =
     (\<lparr>o_Data = [], o_Status = StatusCompleted, o_StartedAt = env_now e, o_EndedAt = env_now e,
       o_NextNodeID = []\<rparr>, None)"

subsection \<open>end\<close>

definition end_Execute :: "env \<Rightarrow> node_inputs \<Rightarrow> node_outputs \<times> string option" where
  "end_Execute e inputs =
     (\<lparr>o_Data = [(''summary'', VMap [(''message'', VStr ''Workflow execution finished'')])],
       o_Status = StatusCompleted, o_StartedAt = env_now e, o_EndedAt = env_now e,
       o_NextNodeID = []\<rparr>, None)"

subsection \<open>form\<close>

definition form_Execute :: "env \<Rightarrow> base_node \<Rightarrow> node_inputs \<Rightarrow> node_outputs \<times> string option" where
  "form_Execute e n inputs =
     (let wi = in_WorkflowInput inputs;
          formData = [(''name'', VStr (i_Name wi)),
                      (''email'', VStr (i_Email wi)),
                      (''city'', VStr (i_City wi)),
                      (''threshold'', VFloat (i_Threshold wi)),
                      (''operator'', VStr (i_Operator wi))];
          formType = (if b_Label n \<noteq> [] then b_Label n else ''user_input'')
      in (\<lparr>o_Data = [(''message'', VStr ''Form data processed successfully''),
                      (''formData'', VMap formData),
                      (''details'', VMap [(''formType'', VStr formType),
                                          (''fieldCount'', VInt (int (length formData)))]),
                      (''name'', VStr (i_Name wi)),
                      (''email'', VStr (i_Email wi)),
                      (''city'', VStr (i_City wi))],
            o_Status = StatusCompleted, o_StartedAt = env_now e, o_EndedAt = env_now e,
            o_NextNodeID = []\<rparr>, None))"

subsection \<open>integration, with the weather client\<close>

record weather_option =
  wo_City :: string
  wo_Lat :: real
  wo_Lon :: real

record integration_config =
  ic_APIEndpoint :: string
  ic_Options :: "weather_option list"

text \<open>
  \<open>Client.GetWeather\<close>: the error message or the temperature, together with the URLs of
  the HTTP requests it sent.
\<close>

definition GetWeather :: "env \<Rightarrow> string \<Rightarrow> real \<Rightarrow> real \<Rightarrow> string \<Rightarrow> (string + real) \<times> string list" where
  "GetWeather e endpoint lat lon cityName =
     (let url = replace_all (replace_all endpoint ''{lat}'' (fmt_fixed 6 lat)) ''{lon}'' (fmt_fixed 6 lon)
      in case env_new_request_error e url of
           Some err \<Rightarrow> (Inl (''error creating request: '' @ err), [])
         | None \<Rightarrow>
            (case env_http_do e url of
               Inl err \<Rightarrow> (Inl (''failed to call weather API: '' @ err), [url])
             | Inr (code, body) \<Rightarrow>
                 if code \<noteq> 200 then (Inl (''weather API returned status '' @ fmt_d code), [url])
                 else (case body of
                         Inl err \<Rightarrow> (Inl (''failed to parse weather API response: '' @ err), [url])
                       | Inr weatherData \<Rightarrow>
                          (case map_of weatherData ''current_weather'' of
                             Some (VMap currentWeather) \<Rightarrow>
                               (case map_of currentWeather ''temperature'' of
                                  Some (VFloat temperature) \<Rightarrow> (Inr temperature, [url])
                                | _ \<Rightarrow> (Inl ''invalid temperature value in API response'', [url]))
                           | _ \<Rightarrow> (Inl ''invalid weather API response format'', [url])))))"

text \<open>The loop over \<open>n.config.Options\<close>: the first option whose city is the given one.\<close>

fun find_option :: "weather_option list \<Rightarrow> string \<Rightarrow> (real \<times> real) option" where
  "find_option [] city = None"
| "find_option (opt # opts) city =
     (if wo_City opt = city then Some (wo_Lat opt, wo_Lon opt) else find_option opts city)"

text \<open>
  \<open>integration.Node.Execute\<close>: the node as the call leaves it (the description may be
  personalised), the outputs, the error, and the URLs of the HTTP requests sent.
\<close>

definition integration_Execute ::
  "env \<Rightarrow> base_node \<Rightarrow> integration_config \<Rightarrow> node_inputs \<Rightarrow>
     base_node \<times> node_outputs \<times> string option \<times> string list" where
  "integration_Execute e n config inputs =
     (let outputs = \<lparr>o_Data = [], o_Status = StatusRunning, o_StartedAt = env_now e,
                      o_EndedAt = [], o_NextNodeID = []\<rparr>
      in case map_of (in_PriorOutputs inputs) NodeIDForm of
           None \<Rightarrow>
             (n, outputs\<lparr>o_Status := StatusFailed,
                         o_Data := [(''error'', VStr ''Failed to get form data'')],
                         o_EndedAt := env_now e\<rparr>, Some ''missing form data'', [])
         | Some formOutput \<Rightarrow>
            (case map_of (o_Data formOutput) ''city'' of
               Some (VStr city) \<Rightarrow>
                 (let n' = (if contains (b_Description n) ''{{city}}''
                            then n\<lparr>b_Description := replace_all (b_Description n) ''{{city}}'' city\<rparr>
                            else n)
                  in case find_option (ic_Options config) city of
                       None \<Rightarrow>
                         (n', outputs\<lparr>o_Status := StatusFailed,
                                      o_Data := [(''error'', VStr (''City not found: '' @ city))],
                                      o_EndedAt := env_now e\<rparr>,
                          Some (''city not found: '' @ city), [])
                     | Some (lat, lon) \<Rightarrow>
                        (case GetWeather e (ic_APIEndpoint config) lat lon city of
                           (Inl err, reqs) \<Rightarrow>
                             (n', outputs\<lparr>o_Status := StatusFailed,
                                          o_Data := [(''error'', VStr (''Weather API error: '' @ err)),
                                                     (''message'', VStr ''Weather API request failed'')],
                                          o_EndedAt := env_now e\<rparr>,
                              Some (''weather API error: '' @ err), reqs)
                         | (Inr temperature, reqs) \<Rightarrow>
                             (n', outputs\<lparr>o_Status := StatusCompleted,
                                  o_Data :=
                                    [(''message'', VStr (''Retrieved temperature for '' @ city @ '': '' @
                                                         fmt_fixed 1 temperature @ degree_C)),
                                     (''apiResponse'',
                                        VMap [(''endpoint'', VStr (ic_APIEndpoint config)),
                                              (''method'', VStr ''GET''),
                                              (''data'', VMap [(''temperature'', VFloat temperature),
                                                               (''location'', VStr city)])]),
                                     (''temperature'', VFloat temperature),
                                     (''location'', VStr city)],
                                  o_EndedAt := env_now e\<rparr>, None, reqs)))
             | _ \<Rightarrow>
                 (n, outputs\<lparr>o_Status := StatusFailed,
                             o_Data := [(''error'', VStr ''Failed to get city from form output'')],
                             o_EndedAt := env_now e\<rparr>, Some ''missing city'', [])))"

subsection \<open>condition\<close>

record condition_config =
  cc_ConditionExpression :: string
  cc_TrueRoute :: string
  cc_FalseRoute :: string

text \<open>\<open>WeatherEmoji.Emoji\<close>, as UTF-8 bytes.\<close>

definition Emoji :: "real \<Rightarrow> string" where
  "Emoji temp =
     (if temp \<ge> 35 then [CHR 0xF0, CHR 0x9F, CHR 0xA5, CHR 0xB5]
      else if temp \<ge> 25 then [CHR 0xF0, CHR 0x9F, CHR 0x98, CHR 0x8E]
      else if temp \<ge> 15 then [CHR 0xF0, CHR 0x9F, CHR 0x99, CHR 0x82]
      else if temp \<ge> 5 then [CHR 0xF0, CHR 0x9F, CHR 0xA7, CHR 0xA5]
      else [CHR 0xF0, CHR 0x9F, CHR 0xA5, CHR 0xB6])"

text \<open>The first \<open>switch operator\<close>: \<open>conditionMet\<close> keeps its zero value if no case matches.\<close>

definition evaluate_condition :: "string \<Rightarrow> real \<Rightarrow> real \<Rightarrow> bool" where
  "evaluate_condition operator temperature threshold =
     (if operator = OperatorGreaterThan then temperature > threshold
      else if operator = OperatorLessThan then temperature < threshold
      else if operator = OperatorEquals then temperature = threshold
      else if operator = OperatorGreaterThanOrEqual then temperature \<ge> threshold
      else if operator = OperatorLessThanOrEqual then temperature \<le> threshold
      else False)"

text \<open>The second \<open>switch operator\<close>: the symbol shown, \<open>>\<close> unless a case matches.\<close>

definition operator_symbol :: "string \<Rightarrow> string" where
  "operator_symbol operator =
     (if operator = OperatorLessThan then ''<''
      else if operator = OperatorEquals then ''=''
      else if operator = OperatorGreaterThanOrEqual then [CHR 0xE2, CHR 0x89, CHR 0xA5]
      else if operator = OperatorLessThanOrEqual then [CHR 0xE2, CHR 0x89, CHR 0xA4]
      else ''>'')"

definition condition_Execute ::
  "env \<Rightarrow> condition_config \<Rightarrow> node_inputs \<Rightarrow> node_outputs \<times> string option" where
  "condition_Execute e config inputs =
     (let outputs = \<lparr>o_Data = [], o_Status = StatusRunning, o_StartedAt = env_now e,
                      o_EndedAt = [], o_NextNodeID = []\<rparr>;
          tempNodeData = (case map_of (in_PriorOutputs inputs) NodeIDWeatherAPI of
                            None \<Rightarrow> [] | Some tempNode \<Rightarrow> o_Data tempNode)
      in case map_of tempNodeData ''temperature'' of
           Some (VFloat temperature) \<Rightarrow>
             (let threshold = i_Threshold (in_WorkflowInput inputs);
                  operator = i_Operator (in_WorkflowInput inputs);
                  conditionMet = evaluate_condition operator temperature threshold;
                  next = (if conditionMet then cc_TrueRoute config else cc_FalseRoute config);
                  operatorSymbol = operator_symbol operator;
                  message = ''Temperature '' @ fmt_fixed 1 temperature @ degree_C @ '' '' @
                            operatorSymbol @ '' '' @ fmt_fixed 1 threshold @ degree_C @ '' '' @
                            Emoji temperature @ '' - condition '' @
                            (if conditionMet then ''met'' else ''not met'');
                  expression = ''temperature '' @ operatorSymbol @ '' threshold''
              in (outputs\<lparr>o_NextNodeID := next,
                    o_Data := [(''message'', VStr message),
                               (''conditionResult'',
                                  VMap [(''expression'', VStr expression),
                                        (''result'', VBool conditionMet),
                                        (''temperature'', VFloat temperature),
                                        (''operator'', VStr operator),
                                        (''threshold'', VFloat threshold)]),
                               (''details'', VMap [(''conditionType'', VStr ''temperature''),
                                                   (''evaluatedAt'', VStr (env_now e))])],
                    o_Status := StatusCompleted,
                    o_EndedAt := env_now e\<rparr>, None))
         | _ \<Rightarrow>
             (outputs\<lparr>o_Status := StatusFailed,
                      o_Data := [(''error'', VStr ''Failed to get temperature'')],
                      o_EndedAt := env_now e\<rparr>, Some ''missing temperature''))"

subsection \<open>email, with the mailer\<close>

record email_template =
  t_Subject :: string
  t_Body :: string

text \<open>\<open>processTemplate\<close>: the value as text, then one replacement per variable.\<close>

fun string_value :: "env \<Rightarrow> val \<Rightarrow> string" where
  "string_value e (VFloat v) = fmt_fixed 1 v"
| "string_value e (VInt v) = fmt_d v"
| "string_value e (VStr v) = v"
| "string_value e v = env_fmt_v e v"

fun replace_variables :: "env \<Rightarrow> string \<Rightarrow> data_bag \<Rightarrow> string" where
  "replace_variables e result [] = result"
| "replace_variables e result ((key, value) # rest) =
     replace_variables e (replace_all result (''{{'' @ key @ ''}}'') (string_value e value)) rest"

definition processTemplate :: "env \<Rightarrow> nat \<Rightarrow> string \<Rightarrow> data_bag \<Rightarrow> string" where
  "processTemplate e k template variables =
     replace_variables e template (env_range_vars e k variables)"

text \<open>
  \<open>PrepareAndStubSendEmail\<close>: the payload; it sends nothing and its error is always nil.
  Its two calls of \<open>processTemplate\<close> are the \<open>range\<close>s numbered 0 and 1.
\<close>

definition PrepareAndStubSendEmail :: "env \<Rightarrow> string \<Rightarrow> data_bag \<Rightarrow> email_template \<Rightarrow> data_bag" where
  "PrepareAndStubSendEmail e to variables template =
     (let subject = processTemplate e 0 (t_Subject template) variables;
          body = processTemplate e 1 (t_Body template) variables
      in [(''to'', VStr to),
          (''from'', VStr ''weather-alerts@checkbox.com''),
          (''subject'', VStr subject),
          (''body'', VStr body),
          (''variables'', VMap variables),
          (''timestamp'', VStr (env_now e))])"

text \<open>
  The inner loop of \<open>email.Node.Execute\<close>: the first prior output, in the order the
  runtime iterates, that has the variable.
\<close>

fun find_variable :: "string \<Rightarrow> (string \<times> node_outputs) list \<Rightarrow> val option" where
  "find_variable varName [] = None"
| "find_variable varName ((nodeID, output) # rest) =
     (case map_of (o_Data output) varName of
        Some value \<Rightarrow> Some value
      | None \<Rightarrow> find_variable varName rest)"

text \<open>
  The outer loop: \<open>Inl\<close> the first variable not found, or \<open>Inr\<close> the template variables.
  The \<open>k\<close>-th variable's scan is the \<open>range\<close> numbered \<open>k\<close>.
\<close>

fun collect_variables ::
  "env \<Rightarrow> nat \<Rightarrow> string list \<Rightarrow> (string \<times> node_outputs) list \<Rightarrow> data_bag \<Rightarrow> string + data_bag" where
  "collect_variables e k [] prior templateVars = Inr templateVars"
| "collect_variables e k (varName # vars) prior templateVars =
     (case find_variable varName (env_range_outputs e k prior) of
        None \<Rightarrow> Inl varName
      | Some value \<Rightarrow>
          collect_variables e (k + 1) vars prior (AList.update varName value templateVars))"

definition email_failed :: "env \<Rightarrow> string \<Rightarrow> node_outputs" where
  "email_failed e msg =
     \<lparr>o_Data = [(''message'', VStr ''Failed to process email''), (''error'', VStr msg)],
      o_Status = StatusFailed, o_StartedAt = env_now e, o_EndedAt = env_now e,
      o_NextNodeID = []\<rparr>"

definition email_Execute ::
  "env \<Rightarrow> string list \<Rightarrow> email_template \<Rightarrow> node_inputs \<Rightarrow> node_outputs \<times> string option" where
  "email_Execute e InputVariables EmailTemplate inputs =
     (case map_of (in_PriorOutputs inputs) NodeIDCondition of
        None \<Rightarrow> (email_failed e ''Failed to get condition result'', Some ''failed to get condition result'')
      | Some conditionNodeOutput \<Rightarrow>
         (case map_of (o_Data conditionNodeOutput) ''conditionResult'' of
            Some (VMap conditionResult) \<Rightarrow>
              (case map_of conditionResult ''result'' of
                 Some (VBool conditionMet) \<Rightarrow>
                   if conditionMet then
                     (case map_of (in_PriorOutputs inputs) NodeIDForm of
                        None \<Rightarrow> (email_failed e ''Failed to get form data'', Some ''missing form data'')
                      | Some formOutput \<Rightarrow>
                         (case map_of (o_Data formOutput) ''email'' of
                            Some (VStr email) \<Rightarrow>
                              (case collect_variables e 0 InputVariables (in_PriorOutputs inputs) [] of
                                 Inl varName \<Rightarrow>
                                   (email_failed e (''Missing required variable: '' @ varName),
                                    Some (''missing required variable: '' @ varName))
                               | Inr templateVars \<Rightarrow>
                                   (let emailPayload = PrepareAndStubSendEmail e email templateVars EmailTemplate;
                                        subject = (case map_of emailPayload ''subject'' of
                                                     Some (VStr s) \<Rightarrow> s | _ \<Rightarrow> []);
                                        body = (case map_of emailPayload ''body'' of
                                                  Some (VStr s) \<Rightarrow> s | _ \<Rightarrow> [])
                                    in (\<lparr>o_Data =
                                           [(''message'', VStr ''Email sent successfully''),
                                            (''details'', VMap [(''outputVariables'', VList [VStr ''emailSent''])]),
                                            (''emailContent'',
                                               VMap [(''to'', VStr email),
                                                     (''subject'', VStr subject),
                                                     (''body'', VStr body),
                                                     (''timestamp'', VStr (env_now e))])],
                                          o_Status = StatusCompleted, o_StartedAt = env_now e,
                                          o_EndedAt = env_now e, o_NextNodeID = []\<rparr>, None)))
                          | _ \<Rightarrow> (email_failed e ''Failed to get email from form output'', Some ''missing email'')))
                   else
                     (\<lparr>o_Data = [(''message'', VStr ''Email not sent - condition not met''),
                                  (''details'', VMap [(''reason'', VStr ''Condition not met'')])],
                       o_Status = StatusCompleted, o_StartedAt = env_now e, o_EndedAt = env_now e,
                       o_NextNodeID = []\<rparr>, None)
               | _ \<Rightarrow> (email_failed e ''Failed to get condition result'', Some ''invalid condition result format''))
          | _ \<Rightarrow> (email_failed e ''Failed to get condition result'', Some ''invalid condition result format'')))"

section \<open>Node instances and the registry (api/pkg/node, api/cmd/api)\<close>

text \<open>
  The six implementations of the \<open>Node\<close> interface, each with the fields of its struct.
\<close>

datatype node_instance =
    StartNode base_node
  | FormNode base_node
  | IntegrationNode base_node integration_config
  | ConditionNode base_node condition_config
  | EmailNode base_node "string list" email_template
  | EndNode base_node

fun node_Type :: "node_instance \<Rightarrow> string" where
  "node_Type (StartNode b) = NodeTypeStart"
| "node_Type (FormNode b) = NodeTypeForm"
| "node_Type (IntegrationNode b c) = NodeTypeIntegration"
| "node_Type (ConditionNode b c) = NodeTypeCondition"
| "node_Type (EmailNode b vs t) = NodeTypeEmail"
| "node_Type (EndNode b) = NodeTypeEnd"

fun GetBaseInfo :: "node_instance \<Rightarrow> base_node" where
  "GetBaseInfo (StartNode b) = b"
| "GetBaseInfo (FormNode b) = b"
| "GetBaseInfo (IntegrationNode b c) = b"
| "GetBaseInfo (ConditionNode b c) = b"
| "GetBaseInfo (EmailNode b vs t) = b"
| "GetBaseInfo (EndNode b) = b"

text \<open>
  The interface method \<open>Execute\<close>: the node as the call leaves it, the outputs, the
  error, and the URLs of the HTTP requests sent.
\<close>

fun node_Execute ::
  "env \<Rightarrow> node_instance \<Rightarrow> node_inputs \<Rightarrow> node_instance \<times> node_outputs \<times> string option \<times> string list" where
  "node_Execute e (StartNode b) inputs =
     (case start_Execute e inputs of (outputs, err) \<Rightarrow> (StartNode b, outputs, err, []))"
| "node_Execute e (FormNode b) inputs =
     (case form_Execute e b inputs of (outputs, err) \<Rightarrow> (FormNode b, outputs, err, []))"
| "node_Execute e (IntegrationNode b c) inputs =
     (case integration_Execute e b c inputs of
        (b', outputs, err, reqs) \<Rightarrow> (IntegrationNode b' c, outputs, err, reqs))"
| "node_Execute e (ConditionNode b c) inputs =
     (case condition_Execute e c inputs of (outputs, err) \<Rightarrow> (ConditionNode b c, outputs, err, []))"
| "node_Execute e (EmailNode b vs t) inputs =
     (case email_Execute e vs t inputs of (outputs, err) \<Rightarrow> (EmailNode b vs t, outputs, err, []))"
| "node_Execute e (EndNode b) inputs =
     (case end_Execute e inputs of (outputs, err) \<Rightarrow> (EndNode b, outputs, err, []))"

text \<open>The constructors \<open>NewNode\<close> of the six packages.\<close>

definition base_of :: "node_model \<Rightarrow> base_node" where
  "base_of model = \<lparr>b_ID = n_ID model, b_Label = n_Label model, b_Description = n_Description model\<rparr>"

definition start_NewNode :: "node_model \<Rightarrow> failure + node_instance" where
  "start_NewNode model = Inr (StartNode (base_of model))"

definition form_NewNode :: "node_model \<Rightarrow> failure + node_instance" where
  "form_NewNode model = Inr (FormNode (base_of model))"

definition end_NewNode :: "node_model \<Rightarrow> failure + node_instance" where
  "end_NewNode model = Inr (EndNode (base_of model))"

fun parse_options :: "val list \<Rightarrow> weather_option list" where
  "parse_options [] = []"
| "parse_options (VMap option # rest) =
     \<lparr>wo_City = (case map_of option ''city'' of Some (VStr c) \<Rightarrow> c | _ \<Rightarrow> []),
      wo_Lat = (case map_of option ''lat'' of Some (VFloat x) \<Rightarrow> x | _ \<Rightarrow> 0),
      wo_Lon = (case map_of option ''lon'' of Some (VFloat x) \<Rightarrow> x | _ \<Rightarrow> 0)\<rparr> # parse_options rest"
| "parse_options (opt # rest) = parse_options rest"

definition integration_NewNode :: "node_model \<Rightarrow> failure + node_instance" where
  "integration_NewNode model =
     (case map_of (n_Metadata model) ''apiEndpoint'' of
        Some (VStr apiEndpoint) \<Rightarrow>
          Inr (IntegrationNode (base_of model)
                 \<lparr>ic_APIEndpoint = apiEndpoint,
                  ic_Options = (case map_of (n_Metadata model) ''options'' of
                                  Some (VList optionsRaw) \<Rightarrow> parse_options optionsRaw
                                | _ \<Rightarrow> [])\<rparr>)
      | _ \<Rightarrow> Inl (Err ''missing API endpoint''))"

text \<open>
  \<open>condition.NewNode\<close> asserts every source handle to be a string without checking:
  a handle of another type panics.
\<close>

fun is_VStr :: "val \<Rightarrow> bool" where
  "is_VStr (VStr s) = True"
| "is_VStr v = False"

definition condition_NewNode :: "node_model \<Rightarrow> failure + node_instance" where
  "condition_NewNode model =
     (let metadata = n_Metadata model;
          expr = (case map_of metadata ''conditionExpression'' of Some (VStr s) \<Rightarrow> s | _ \<Rightarrow> []);
          sourceHandles = (case map_of metadata ''hasHandles'' of
                             Some (VMap handles) \<Rightarrow>
                               (case map_of handles ''source'' of Some (VList hs) \<Rightarrow> hs | _ \<Rightarrow> [])
                           | _ \<Rightarrow> [])
      in if list_all is_VStr sourceHandles
         then Inr (ConditionNode (base_of model)
                     \<lparr>cc_ConditionExpression = expr, cc_TrueRoute = [], cc_FalseRoute = []\<rparr>)
         else Inl (Panic ''interface conversion: interface {} is not string''))"

fun string_elements :: "val list \<Rightarrow> string list" where
  "string_elements [] = []"
| "string_elements (VStr s # rest) = s # string_elements rest"
| "string_elements (v # rest) = string_elements rest"

definition email_NewNode :: "node_model \<Rightarrow> failure + node_instance" where
  "email_NewNode model =
     (case map_of (n_Metadata model) ''inputVariables'' of
        None \<Rightarrow> Inr (EmailNode (base_of model) [] \<lparr>t_Subject = [], t_Body = []\<rparr>)
      | Some meta \<Rightarrow>
          Inr (EmailNode (base_of model)
                 (case meta of VList inputVars \<Rightarrow> string_elements inputVars | _ \<Rightarrow> [])
                 (case map_of (n_Metadata model) ''emailTemplate'' of
                    Some (VMap template) \<Rightarrow>
                      \<lparr>t_Subject = (case map_of template ''subject'' of Some (VStr s) \<Rightarrow> s | _ \<Rightarrow> []),
                       t_Body = (case map_of template ''body'' of Some (VStr s) \<Rightarrow> s | _ \<Rightarrow> [])\<rparr>
                  | _ \<Rightarrow> \<lparr>t_Subject = [], t_Body = []\<rparr>)))"

text \<open>\<open>Registry\<close>: the factories by node type; \<open>Register\<close> overwrites, \<open>Create\<close> looks up.\<close>

type_synonym registry = "string \<Rightarrow> (node_model \<Rightarrow> failure + node_instance) option"

definition Register :: "registry \<Rightarrow> string \<Rightarrow> (node_model \<Rightarrow> failure + node_instance) \<Rightarrow> registry" where
  "Register r nodeType factory = r(nodeType \<mapsto> factory)"

definition Create :: "registry \<Rightarrow> node_model \<Rightarrow> failure + node_instance" where
  "Create r nodeModel =
     (case r (n_Type nodeModel) of
        None \<Rightarrow> Inl (Err (''no factory registered for node type '' @ n_Type nodeModel))
      | Some factory \<Rightarrow> factory nodeModel)"

text \<open>\<open>registerNodeTypes\<close> of \<open>main.go\<close>, on the empty registry.\<close>

definition registerNodeTypes :: registry where
  "registerNodeTypes =
     Register (Register (Register (Register (Register (Register Map.empty
       NodeTypeStart start_NewNode)
       NodeTypeForm form_NewNode)
       NodeTypeIntegration integration_NewNode)
       NodeTypeCondition condition_NewNode)
       NodeTypeEmail email_NewNode)
       NodeTypeEnd end_NewNode"

section \<open>Execution engine (api/internal/execution)\<close>

record execution_step =
  s_NodeID :: string
  s_StepNumber :: int
  s_NodeType :: string
  s_Status :: status
  s_Label :: string
  s_Description :: string
  s_Duration :: int
  s_Output :: data_bag
  s_Timestamp :: string
  s_Error :: string
  s_StartedAt :: string
  s_EndedAt :: string

record workflow_execution =
  x_ID :: string
  x_WorkflowID :: string
  x_Status :: status
  x_StartTime :: string
  x_EndTime :: string
  x_TotalDuration :: int
  x_Steps :: "execution_step list"
  x_Metadata :: data_bag

text \<open>The errors \<open>Execute\<close> returns instead of a record, and a panic of a constructor.\<close>

datatype engine_error =
    CreateNodeFailed string string
  | NoStartNodeFound
  | NodeNotFound string
  | NoOutgoingEdges string
  | Panicked string

type_synonym node_table = "string \<Rightarrow> node_instance option"
type_synonym edge_table = "string \<Rightarrow> (string \<Rightarrow> string option) option"

text \<open>\<open>initializeWorkflow\<close>, first loop: the node instances and the start node id.\<close>

fun create_nodes ::
  "registry \<Rightarrow> node_model list \<Rightarrow> node_table \<Rightarrow> string \<Rightarrow> engine_error + (node_table \<times> string)" where
  "create_nodes r [] nodes startNodeID = Inr (nodes, startNodeID)"
| "create_nodes r (nodeModel # rest) nodes startNodeID =
     (case Create r nodeModel of
        Inl (Err err) \<Rightarrow> Inl (CreateNodeFailed (n_ID nodeModel) err)
      | Inl (Panic p) \<Rightarrow> Inl (Panicked p)
      | Inr n \<Rightarrow>
          create_nodes r rest (nodes(n_ID nodeModel \<mapsto> n))
            (if node_Type n = NodeTypeStart then n_ID nodeModel else startNodeID))"

text \<open>
  Second loop, one edge: the routing table entry (a later edge with the same source and
  route key overwrites an earlier one), and the route pushed into a condition node.
\<close>

definition routes_of :: "edge_table \<Rightarrow> string \<Rightarrow> (string \<Rightarrow> string option)" where
  "routes_of edges source = (case edges source of None \<Rightarrow> Map.empty | Some m \<Rightarrow> m)"

definition add_edge :: "edge_model \<Rightarrow> node_table \<times> edge_table \<Rightarrow> node_table \<times> edge_table" where
  "add_edge edge ne =
     (let nodes = fst ne; edges = snd ne;
          routeKey = e_SourceHandle edge;
          edges' = edges(e_Source edge \<mapsto> (routes_of edges (e_Source edge))(routeKey \<mapsto> e_Target edge));
          nodes' = (if routeKey = ''true'' \<or> routeKey = ''false'' then
                      (case nodes (e_Source edge) of
                         Some (ConditionNode b c) \<Rightarrow>
                           nodes(e_Source edge \<mapsto>
                             ConditionNode b (if routeKey = ''true''
                                              then c\<lparr>cc_TrueRoute := e_Target edge\<rparr>
                                              else c\<lparr>cc_FalseRoute := e_Target edge\<rparr>))
                       | _ \<Rightarrow> nodes)
                    else nodes)
      in (nodes', edges'))"

fun build_edges :: "edge_model list \<Rightarrow> node_table \<times> edge_table \<Rightarrow> node_table \<times> edge_table" where
  "build_edges [] ne = ne"
| "build_edges (edge # rest) ne = build_edges rest (add_edge edge ne)"

definition initializeWorkflow ::
  "registry \<Rightarrow> workflow \<Rightarrow> engine_error + (node_table \<times> edge_table \<times> string)" where
  "initializeWorkflow r flow =
     (case create_nodes r (w_Nodes flow) Map.empty [] of
        Inl err \<Rightarrow> Inl err
      | Inr (nodes, startNodeID) \<Rightarrow>
          if startNodeID = [] then Inl NoStartNodeFound
          else (case build_edges (w_Edges flow) (nodes, Map.empty) of
                  (nodes', edges) \<Rightarrow> Inr (nodes', edges, startNodeID)))"

text \<open>\<open>createExecutionStep\<close>; the caller sets the step number.\<close>

definition createExecutionStep :: "env \<Rightarrow> node_instance \<Rightarrow> string \<Rightarrow> node_outputs \<Rightarrow> execution_step" where
  "createExecutionStep e node nodeID outputs =
     \<lparr>s_NodeID = nodeID,
      s_StepNumber = 0,
      s_NodeType = node_Type node,
      s_Status = (if o_Status outputs = StatusFailed then StatusFailed else StatusCompleted),
      s_Label = b_Label (GetBaseInfo node),
      s_Description = b_Description (GetBaseInfo node),
      s_Duration = env_millis_between e (o_StartedAt outputs) (o_EndedAt outputs),
      s_Output = o_Data outputs,
      s_Timestamp = o_StartedAt outputs,
      s_Error = (case map_of (o_Data outputs) ''error'' of Some (VStr errStr) \<Rightarrow> errStr | _ \<Rightarrow> []),
      s_StartedAt = o_StartedAt outputs,
      s_EndedAt = o_EndedAt outputs\<rparr>"

text \<open>\<open>findNextNode\<close>.\<close>

definition findNextNode ::
  "node_instance \<Rightarrow> string \<Rightarrow> node_outputs \<Rightarrow> edge_table \<Rightarrow> engine_error + string" where
  "findNextNode currentNode currentNodeID outputs edges =
     (if o_NextNodeID outputs \<noteq> [] then Inr (o_NextNodeID outputs)
      else
        let routeKey = (case map_of (o_Data outputs) ''conditionMet'' of
                          Some (VBool True) \<Rightarrow> ''true'' | _ \<Rightarrow> ''false'');
            conditional = (if node_Type currentNode = NodeTypeCondition
                           then routes_of edges currentNodeID routeKey else None)
        in case conditional of
             Some nextNode \<Rightarrow> Inr nextNode
           | None \<Rightarrow>
              (case routes_of edges currentNodeID [] of
                 Some nextNode \<Rightarrow> Inr nextNode
               | None \<Rightarrow> Inl (NoOutgoingEdges currentNodeID)))"

text \<open>
  The variables of the \<open>for\<close> loop of \<open>Execute\<close>. The node table is part of the state:
  the engine holds the nodes by pointer, and a node may change its own description.
\<close>

record loop_state =
  ls_nodes :: node_table
  ls_priorOutputs :: "(string \<times> node_outputs) list"
  ls_currentNodeID :: string
  ls_stepNumber :: int
  ls_execution :: workflow_execution

text \<open>
  One iteration of the loop: it returns an error, returns or breaks with the record, or
  goes round again.
\<close>

datatype outcome = Abort engine_error | Finish workflow_execution | Continue loop_state

definition stamp_end :: "env \<Rightarrow> status \<Rightarrow> workflow_execution \<Rightarrow> workflow_execution" where
  "stamp_end e st execution =
     execution\<lparr>x_Status := st, x_EndTime := env_now e,
               x_TotalDuration := env_millis_between e (x_StartTime execution) (env_now e)\<rparr>"

definition loop_body :: "env \<Rightarrow> workflow_input \<Rightarrow> edge_table \<Rightarrow> loop_state \<Rightarrow> outcome" where
  "loop_body e input edges s =
     (let currentNodeID = ls_currentNodeID s in
      case ls_nodes s currentNodeID of
        None \<Rightarrow> Abort (NodeNotFound currentNodeID)
      | Some currentNode \<Rightarrow>
         (let nodeInputs = \<lparr>in_WorkflowInput = input, in_NodeData = [],
                            in_PriorOutputs = ls_priorOutputs s\<rparr>
          in case node_Execute e currentNode nodeInputs of
               (node', outputs, err, reqs) \<Rightarrow>
                 (let step = (createExecutionStep e node' currentNodeID outputs)
                               \<lparr>s_StepNumber := ls_stepNumber s\<rparr>;
                      execution = (ls_execution s)\<lparr>x_Steps := x_Steps (ls_execution s) @ [step]\<rparr>;
                      priorOutputs = AList.update currentNodeID outputs (ls_priorOutputs s)
                  in if err \<noteq> None \<or> o_Status outputs = StatusFailed
                     then Finish (stamp_end e StatusFailed execution)
                     else if node_Type node' = NodeTypeEnd
                     then Finish (stamp_end e StatusCompleted execution)
                     else (case findNextNode node' currentNodeID outputs edges of
                             Inl err \<Rightarrow> Abort err
                           | Inr nextNodeID \<Rightarrow>
                               Continue \<lparr>ls_nodes = (ls_nodes s)(currentNodeID \<mapsto> node'),
                                         ls_priorOutputs = priorOutputs,
                                         ls_currentNodeID = nextNodeID,
                                         ls_stepNumber = ls_stepNumber s + 1,
                                         ls_execution = execution\<rparr>))))"

text \<open>
  The loop. It has no cycle guard, so it need not return: \<open>None\<close> is the run that never
  returns, \<open>Some (Inl err)\<close> the call error, \<open>Some (Inr execution)\<close> the record.
\<close>

partial_function (option) exec_loop ::
  "env \<Rightarrow> workflow_input \<Rightarrow> edge_table \<Rightarrow> loop_state \<Rightarrow> (engine_error + workflow_execution) option" where
  "exec_loop e input edges s =
     (case loop_body e input edges s of
        Abort err \<Rightarrow> Some (Inl err)
      | Finish execution \<Rightarrow> Some (Inr execution)
      | Continue s' \<Rightarrow> exec_loop e input edges s')"

definition initial_state :: "env \<Rightarrow> workflow \<Rightarrow> workflow_input \<Rightarrow> node_table \<Rightarrow> string \<Rightarrow> loop_state" where
  "initial_state e flow input nodes startNodeID =
     \<lparr>ls_nodes = nodes, ls_priorOutputs = [], ls_currentNodeID = startNodeID, ls_stepNumber = 1,
      ls_execution =
        \<lparr>x_ID = env_uuid e, x_WorkflowID = w_ID flow, x_Status = StatusRunning,
         x_StartTime = env_now e, x_EndTime = [], x_TotalDuration = 0, x_Steps = [],
         x_Metadata = [(''workflowVersion'', VInt (w_Version flow)),
                       (''triggeredBy'', VStr (i_Name input))]\<rparr>\<rparr>"

text \<open>\<open>Engine.Execute\<close>, for an engine holding the registry \<open>r\<close>.\<close>

definition Execute ::
  "env \<Rightarrow> registry \<Rightarrow> workflow \<Rightarrow> workflow_input \<Rightarrow> (engine_error + workflow_execution) option" where
  "Execute e r flow input =
     (case initializeWorkflow r flow of
        Inl err \<Rightarrow> Some (Inl err)
      | Inr (nodes, edges, startNodeID) \<Rightarrow>
          exec_loop e input edges (initial_state e flow input nodes startNodeID))"

text \<open>
  The loop states a run passes through: \<open>traversal e input edges s s'\<close> when the loop,
  started in \<open>s\<close>, comes round to \<open>s'\<close>.
\<close>

inductive traversal :: "env \<Rightarrow> workflow_input \<Rightarrow> edge_table \<Rightarrow> loop_state \<Rightarrow> loop_state \<Rightarrow> bool"
  for e input edges s where
    here: "traversal e input edges s s"
  | round: "traversal e input edges s s' \<Longrightarrow> loop_body e input edges s' = Continue s'' \<Longrightarrow>
            traversal e input edges s s''"

section \<open>Notions the properties are stated with\<close>

text \<open>The entry \<open>conditionResult.result\<close> of a condition node's output.\<close>

definition condition_result :: "node_outputs \<Rightarrow> val option" where
  "condition_result outputs =
     (case map_of (o_Data outputs) ''conditionResult'' of
        Some (VMap conditionResult) \<Rightarrow> map_of conditionResult ''result''
      | _ \<Rightarrow> None)"

text \<open>The entry \<open>emailContent.body\<close> of an email node's output.\<close>

definition email_body :: "node_outputs \<Rightarrow> val option" where
  "email_body outputs =
     (case map_of (o_Data outputs) ''emailContent'' of
        Some (VMap emailContent) \<Rightarrow> map_of emailContent ''body''
      | _ \<Rightarrow> None)"

text \<open>
  The prior outputs supply the value \<open>v\<close> for the variable \<open>name\<close>: some output has it
  under that key, and no output has another value under that key.
\<close>

definition supplies :: "(string \<times> node_outputs) list \<Rightarrow> string \<Rightarrow> val \<Rightarrow> bool" where
  "supplies prior name v =
     ((\<exists>p\<in>set prior. map_of (o_Data (snd p)) name = Some v) \<and>
      (\<forall>p\<in>set prior. map_of (o_Data (snd p)) name = None \<or> map_of (o_Data (snd p)) name = Some v))"

text \<open>The five operator tags.\<close>

definition recognized_operator :: "string \<Rightarrow> bool" where
  "recognized_operator operator =
     (operator \<in> {OperatorGreaterThan, OperatorLessThan, OperatorEquals,
                   OperatorGreaterThanOrEqual, OperatorLessThanOrEqual})"

subsection \<open>A sample environment, inputs and outputs\<close>

text \<open>
  An environment whose clock stands still, whose HTTP requests all fail and whose
  \<open>range\<close>s iterate in the order of the association list.
\<close>

definition sample_env :: env where
  "sample_env =
     \<lparr>env_now = ''2024-01-01T00:00:00Z'', env_uuid = ''00000000-0000-0000-0000-000000000000'',
      env_millis_between = (\<lambda>a b. 0),
      env_new_request_error = (\<lambda>url. None),
      env_http_do = (\<lambda>url. Inl ''connection refused''),
      env_fmt_v = (\<lambda>v. ''?''),
      env_range_vars = (\<lambda>k m. m),
      env_range_outputs = (\<lambda>k m. m)\<rparr>"

definition sample_input :: workflow_input where
  "sample_input =
     \<lparr>i_Name = ''Ada'', i_Email = ''ada@example.com'', i_City = ''Sydney'', i_Threshold = 20,
      i_Operator = ''greater_than''\<rparr>"

definition completed_output :: "data_bag \<Rightarrow> node_outputs" where
  "completed_output d =
     \<lparr>o_Data = d, o_Status = StatusCompleted, o_StartedAt = ''2024-01-01T00:00:00Z'',
      o_EndedAt = ''2024-01-01T00:00:00Z'', o_NextNodeID = []\<rparr>"

definition sample_config :: condition_config where
  "sample_config =
     \<lparr>cc_ConditionExpression = ''temperature > threshold'', cc_TrueRoute = ''email'',
      cc_FalseRoute = ''end''\<rparr>"

text \<open>The alert template of the specification, its degree sign as UTF-8.\<close>

definition alert_template :: email_template where
  "alert_template =
     \<lparr>t_Subject = ''Weather alert'',
      t_Body = ''Weather alert for {{city}}! Temperature is {{temperature}}'' @ degree_C @ ''!''\<rparr>"

definition alert_body :: string where
  "alert_body = ''Weather alert for Sydney! Temperature is 25.5'' @ degree_C @ ''!''"

definition sample_options :: integration_config where
  "sample_options =
     \<lparr>ic_APIEndpoint = ''https://api.example.com/v1/forecast?latitude={lat}&longitude={lon}'',
      ic_Options = [\<lparr>wo_City = ''Sydney'', wo_Lat = -33.8688, wo_Lon = 151.2093\<rparr>,
                    \<lparr>wo_City = ''Melbourne'', wo_Lat = -37.8136, wo_Lon = 144.9631\<rparr>]\<rparr>"

subsection \<open>Sample node inputs\<close>

definition warm_inputs :: node_inputs where
  "warm_inputs = \<lparr>in_WorkflowInput = sample_input, in_NodeData = [],
     in_PriorOutputs = [(''weather-api'', completed_output [(''temperature'', VFloat 25.5), (''location'', VStr ''Sydney'')])]\<rparr>"

definition mild_inputs :: node_inputs where
  "mild_inputs = \<lparr>in_WorkflowInput = sample_input, in_NodeData = [],
     in_PriorOutputs = [(''weather-api'', completed_output [(''temperature'', VFloat 15.5), (''location'', VStr ''Sydney'')])]\<rparr>"

definition odd_operator_inputs :: node_inputs where
  "odd_operator_inputs = \<lparr>in_WorkflowInput = sample_input\<lparr>i_Operator := ''not_equals''\<rparr>, in_NodeData = [],
     in_PriorOutputs = [(''weather-api'', completed_output [(''temperature'', VFloat 25.5), (''location'', VStr ''Sydney'')])]\<rparr>"

definition nowhereville_inputs :: node_inputs where
  "nowhereville_inputs = \<lparr>in_WorkflowInput = sample_input\<lparr>i_City := ''Nowhereville''\<rparr>, in_NodeData = [],
     in_PriorOutputs = [(''form'', completed_output [(''name'', VStr ''Ada''), (''email'', VStr ''ada@example.com''),
                                                     (''city'', VStr ''Nowhereville'')])]\<rparr>"

definition weather_base :: base_node where
  "weather_base = \<lparr>b_ID = ''weather-api'', b_Label = ''Weather API'',
                    b_Description = ''Fetch the temperature for {{city}}''\<rparr>"

definition alert_inputs :: node_inputs where
  "alert_inputs = \<lparr>in_WorkflowInput = sample_input, in_NodeData = [],
     in_PriorOutputs =
       [(''start'', completed_output []),
        (''form'', completed_output [(''name'', VStr ''Ada''), (''email'', VStr ''ada@example.com''),
                                     (''city'', VStr ''Sydney'')]),
        (''weather-api'', completed_output [(''temperature'', VFloat 25.5), (''location'', VStr ''Sydney'')]),
        (''condition'', completed_output [(''conditionResult'', VMap [(''result'', VBool True)])])]\<rparr>"

section \<open>Properties of the graph validator\<close>

lemma scan_nodes_Inr_iff:
  "(\<exists>s'. scan_nodes ns i s = Inr s') \<longleftrightarrow>
     ((\<forall>n\<in>set ns. n_ID n \<noteq> [] \<and> n_Type n \<noteq> [] \<and> n_ID n \<notin> nodeIDs s) \<and> distinct (map n_ID ns))"
proof (induction ns arbitrary: i s)
  case Nil
  show ?case by simp
next
  case (Cons n ns)
  show ?case
    by (simp add: Let_def Cons.IH) (auto simp: image_iff)
qed

lemma scan_nodes_ids:
  "scan_nodes ns i s = Inr s' \<Longrightarrow> nodeIDs s' = nodeIDs s \<union> n_ID ` set ns"
proof (induction ns arbitrary: i s)
  case Nil
  then show ?case by simp
next
  case (Cons n ns)
  from Cons.prems show ?case
    by (auto simp: Let_def split: if_splits dest!: Cons.IH)
qed

lemma scan_nodes_hasStart:
  "scan_nodes ns i s = Inr s' \<Longrightarrow> hasStart s' = (hasStart s \<or> (\<exists>n\<in>set ns. is_start n))"
proof (induction ns arbitrary: i s)
  case Nil
  then show ?case by simp
next
  case (Cons n ns)
  from Cons.prems show ?case
    by (auto simp: Let_def is_start_def split: if_splits dest!: Cons.IH)
qed

lemma scan_nodes_hasEnd:
  "scan_nodes ns i s = Inr s' \<Longrightarrow> hasEnd s' = (hasEnd s \<or> (\<exists>n\<in>set ns. is_end n))"
proof (induction ns arbitrary: i s)
  case Nil
  then show ?case by simp
next
  case (Cons n ns)
  from Cons.prems show ?case
    by (auto simp: Let_def is_end_def split: if_splits dest!: Cons.IH)
qed

lemma scan_nodes_start_keep:
  "scan_nodes ns i s = Inr s' \<Longrightarrow> \<forall>n\<in>set ns. \<not> is_start n \<Longrightarrow> startNodeIndex s' = startNodeIndex s"
proof (induction ns arbitrary: i s)
  case Nil
  then show ?case by simp
next
  case (Cons n ns)
  from Cons.prems show ?case
    by (auto simp: Let_def is_start_def split: if_splits dest!: Cons.IH)
qed

lemma scan_nodes_start_ge:
  "scan_nodes ns i s = Inr s' \<Longrightarrow> \<exists>n\<in>set ns. is_start n \<Longrightarrow> i \<le> startNodeIndex s'"
proof (induction ns arbitrary: i s)
  case Nil
  then show ?case by simp
next
  case (Cons n ns)
  show ?case
  proof (cases "\<exists>m\<in>set ns. is_start m")
    case True
    from Cons.prems(1) obtain s2 where "scan_nodes ns (i + 1) s2 = Inr s'"
      by (auto simp: Let_def split: if_splits)
    from Cons.IH[OF this True] show ?thesis by simp
  next
    case False
    with Cons.prems(2) have n: "is_start n" by auto
    from False have none: "\<forall>m\<in>set ns. \<not> is_start m" by blast
    from Cons.prems(1) n obtain s2 where s2: "scan_nodes ns (i + 1) s2 = Inr s'" "startNodeIndex s2 = i"
      by (auto simp: Let_def is_start_def split: if_splits)
    from scan_nodes_start_keep[OF s2(1) none] s2(2) show ?thesis by simp
  qed
qed

lemma scan_nodes_end_last:
  "scan_nodes ns i s = Inr s' \<Longrightarrow> endNodeIndex s < i \<Longrightarrow>
     endNodeIndex s' < i + int (length ns) \<and>
     (ns \<noteq> [] \<longrightarrow> (endNodeIndex s' = i + int (length ns) - 1 \<longleftrightarrow> is_end (last ns)))"
proof (induction ns arbitrary: i s)
  case Nil
  then show ?case by simp
next
  case (Cons n ns)
  from Cons.prems obtain s2 where s2: "scan_nodes ns (i + 1) s2 = Inr s'"
     "endNodeIndex s2 = (if is_end n then i else endNodeIndex s)"
    by (auto simp: Let_def is_end_def split: if_splits)
  with Cons.prems(2) have lt: "endNodeIndex s2 < i + 1" by simp
  note IH = Cons.IH[OF s2(1) lt]
  show ?case
  proof (cases "ns = []")
    case True
    with s2 Cons.prems(2) show ?thesis by auto
  next
    case False
    with IH show ?thesis by (simp add: add.commute add.left_commute)
  qed
qed

lemma scan_edges_None_iff:
  "scan_edges ids es seen = None \<longleftrightarrow>
     ((\<forall>e\<in>set es. e_ID e \<noteq> [] \<and> e_Source e \<noteq> [] \<and> e_Target e \<noteq> [] \<and>
                    e_Source e \<in> ids \<and> e_Target e \<in> ids \<and> e_ID e \<notin> seen) \<and> distinct (map e_ID es))"
proof (induction es arbitrary: seen)
  case Nil
  show ?case by simp
next
  case (Cons e es)
  show ?case
    by (simp add: Cons.IH) (auto simp: image_iff)
qed

lemma scan_nodes_wellformed:
  "(\<exists>s'. scan_nodes ns 0 scan_init = Inr s') \<longleftrightarrow> nodes_wellformed ns"
  by (simp add: scan_nodes_Inr_iff nodes_wellformed_def scan_init_def)

lemma scan_nodes_start_first:
  assumes "scan_nodes ns 0 scan_init = Inr s'" "hasStart s'"
  shows "startNodeIndex s' = 0 \<longleftrightarrow> is_start (hd ns) \<and> (\<forall>n\<in>set (tl ns). \<not> is_start n)"
proof (cases ns)
  case Nil
  with assms show ?thesis by (auto simp: scan_init_def)
next
  case (Cons n rest)
  from assms(1) Cons obtain s2 where s2: "scan_nodes rest 1 s2 = Inr s'"
      "startNodeIndex s2 = (if is_start n then 0 else -1)"
    by (auto simp: Let_def is_start_def scan_init_def split: if_splits)
  show ?thesis
  proof (cases "\<exists>m\<in>set rest. is_start m")
    case True
    from scan_nodes_start_ge[OF s2(1) True] True Cons show ?thesis by auto
  next
    case False
    then have "\<forall>m\<in>set rest. \<not> is_start m" by blast
    from scan_nodes_start_keep[OF s2(1) this] s2(2) False Cons show ?thesis by auto
  qed
qed

lemma scan_nodes_end_index:
  assumes "scan_nodes ns 0 scan_init = Inr s'" "ns \<noteq> []"
  shows "endNodeIndex s' = int (length ns) - 1 \<longleftrightarrow> is_end (last ns)"
  using scan_nodes_end_last[OF assms(1)] assms(2) by (simp add: scan_init_def)

lemma validate_None_iff:
  "validateWorkflowStructure ns es = None \<longleftrightarrow> accepted_graph ns es"
proof (cases "ns = []")
  case True
  then show ?thesis by (simp add: validateWorkflowStructure_def accepted_graph_def)
next
  case ne: False
  show ?thesis
  proof (cases "scan_nodes ns 0 scan_init")
    case (Inl err)
    then have "\<not> nodes_wellformed ns" using scan_nodes_wellformed[of ns] by simp
    with Inl ne show ?thesis by (simp add: validateWorkflowStructure_def accepted_graph_def)
  next
    case (Inr s')
    then have wf: "nodes_wellformed ns" using scan_nodes_wellformed[of ns] by auto
    have ids: "nodeIDs s' = n_ID ` set ns" using scan_nodes_ids[OF Inr] by (simp add: scan_init_def)
    have hs: "hasStart s' = (\<exists>n\<in>set ns. is_start n)"
      using scan_nodes_hasStart[OF Inr] by (simp add: scan_init_def)
    have he: "hasEnd s' = (\<exists>n\<in>set ns. is_end n)"
      using scan_nodes_hasEnd[OF Inr] by (simp add: scan_init_def)
    have hd_in: "hd ns \<in> set ns" and last_in: "last ns \<in> set ns" using ne by simp_all
    show ?thesis
    proof (cases "hasStart s'")
      case False
      with hs hd_in have "\<not> is_start (hd ns)" by blast
      with False Inr ne show ?thesis by (simp add: validateWorkflowStructure_def accepted_graph_def)
    next
      case st: True
      note sf = scan_nodes_start_first[OF Inr st]
      show ?thesis
      proof (cases "hasEnd s'")
        case False
        with he last_in have "\<not> is_end (last ns)" by blast
        with False st Inr ne show ?thesis by (simp add: validateWorkflowStructure_def accepted_graph_def)
      next
        case en: True
        note ei = scan_nodes_end_index[OF Inr ne]
        show ?thesis
          using st en Inr ne wf ids sf ei
          by (auto simp: validateWorkflowStructure_def accepted_graph_def scan_edges_None_iff edges_wellformed_def)
      qed
    qed
  qed
qed

lemma spec_invariants_accepted: "spec_invariants ns es \<Longrightarrow> accepted_graph ns es"
proof -
  assume a: "spec_invariants ns es"
  then have ne: "ns \<noteq> []" and one: "length (filter is_start ns) = 1" and hd: "is_start (hd ns)"
    by (simp_all add: spec_invariants_def)
  from ne obtain n rest where ns: "ns = n # rest" by (cases ns) auto
  with one hd have "filter is_start rest = []" by simp
  then have "\<forall>m\<in>set rest. \<not> is_start m" by (simp add: filter_empty_conv)
  with a ns show ?thesis by (simp add: spec_invariants_def accepted_graph_def)
qed


lemma scan_nodes_Inl_cause:
  "scan_nodes ns i s = Inl err \<Longrightarrow>
     (case err of
        ErrEmptyNodeID \<Rightarrow> \<exists>n\<in>set ns. n_ID n = []
      | ErrDuplicateNodeID x \<Rightarrow>
          (x \<in> nodeIDs s \<and> (\<exists>n\<in>set ns. n_ID n = x)) \<or> 1 < length (filter (\<lambda>n. n_ID n = x) ns)
      | ErrInvalidNodeType x \<Rightarrow> \<exists>n\<in>set ns. n_ID n = x \<and> n_Type n = []
      | _ \<Rightarrow> False)"
proof (induction ns arbitrary: i s)
  case Nil
  then show ?case by simp
next
  case (Cons n ns)
  show ?case
  proof (cases "n_ID n = [] \<or> n_ID n \<in> nodeIDs s \<or> n_Type n = []")
    case True
    with Cons.prems show ?thesis
      by (auto simp: Let_def split: if_splits)
  next
    case False
    with Cons.prems obtain s2 where s2: "scan_nodes ns (i + 1) s2 = Inl err"
       "nodeIDs s2 = insert (n_ID n) (nodeIDs s)"
      by (auto simp: Let_def split: if_splits)
    from Cons.IH[OF s2(1)] s2(2) show ?thesis
      by (cases err) (auto simp: filter_empty_conv)
  qed
qed


lemma scan_edges_Some_cause:
  "scan_edges ids es seen = Some err \<Longrightarrow>
     (case err of
        ErrEmptyEdgeID \<Rightarrow> \<exists>e\<in>set es. e_ID e = []
      | ErrDuplicateEdgeID x \<Rightarrow>
          (x \<in> seen \<and> (\<exists>e\<in>set es. e_ID e = x)) \<or> 1 < length (filter (\<lambda>e. e_ID e = x) es)
      | ErrInvalidEdgeConnection x \<Rightarrow> \<exists>e\<in>set es. e_ID e = x \<and> (e_Source e = [] \<or> e_Target e = [])
      | ErrEdgeToUnknownNode x y \<Rightarrow>
          \<exists>e\<in>set es. e_ID e = x \<and> (e_Source e = y \<or> e_Target e = y) \<and> y \<notin> ids
      | _ \<Rightarrow> False)"
proof (induction es arbitrary: seen)
  case Nil
  then show ?case by simp
next
  case (Cons e es)
  show ?case
  proof (cases "e_ID e = [] \<or> e_ID e \<in> seen \<or> e_Source e = [] \<or> e_Target e = [] \<or>
                 e_Source e \<notin> ids \<or> e_Target e \<notin> ids")
    case True
    with Cons.prems show ?thesis
      by (auto split: if_splits)
  next
    case False
    with Cons.prems have s2: "scan_edges ids es (insert (e_ID e) seen) = Some err"
      by (auto split: if_splits)
    from Cons.IH[OF s2] show ?thesis
      by (cases err) (auto simp: filter_empty_conv)
  qed
qed

lemma validate_Some_cause:
  assumes "validateWorkflowStructure ns es = Some err"
  shows "violated_by err ns es"
proof (cases "ns = []")
  case True
  with assms show ?thesis by (simp add: validateWorkflowStructure_def)
next
  case ne: False
  show ?thesis
  proof (cases "scan_nodes ns 0 scan_init")
    case (Inl e)
    with assms ne have "e = err" by (simp add: validateWorkflowStructure_def)
    with scan_nodes_Inl_cause[OF Inl] show ?thesis
      by (cases err) (auto simp: scan_init_def)
  next
    case (Inr s')
    have ids: "nodeIDs s' = n_ID ` set ns" using scan_nodes_ids[OF Inr] by (simp add: scan_init_def)
    have hs: "hasStart s' = (\<exists>n\<in>set ns. is_start n)"
      using scan_nodes_hasStart[OF Inr] by (simp add: scan_init_def)
    have he: "hasEnd s' = (\<exists>n\<in>set ns. is_end n)"
      using scan_nodes_hasEnd[OF Inr] by (simp add: scan_init_def)
    show ?thesis
    proof (cases "hasStart s' \<and> hasEnd s' \<and> startNodeIndex s' = 0 \<and>
                   endNodeIndex s' = int (length ns) - 1")
      case True
      with assms ne Inr have "scan_edges (n_ID ` set ns) es {} = Some err"
        by (simp add: validateWorkflowStructure_def ids)
      from scan_edges_Some_cause[OF this] show ?thesis by (cases err) auto
    next
      case False
      show ?thesis
      proof (cases "hasStart s'")
        case False
        with assms ne Inr hs show ?thesis by (auto simp: validateWorkflowStructure_def)
      next
        case st: True
        show ?thesis
        proof (cases "hasEnd s'")
          case False
          with assms ne Inr he st show ?thesis by (auto simp: validateWorkflowStructure_def)
        next
          case en: True
          from assms ne Inr st en False
            scan_nodes_start_first[OF Inr st] scan_nodes_end_index[OF Inr ne]
          show ?thesis by (auto simp: validateWorkflowStructure_def split: if_splits)
        qed
      qed
    qed
  qed
qed

text \<open>
  Claim C2, as amended. \<open>validateWorkflowStructure\<close> returns no error exactly for the
  graphs with at least one node, a start-type node first and nowhere else, an end-type
  node last (end-type nodes before it are allowed), non-empty unique node ids, non-empty
  node types, and non-empty unique edge ids with non-empty sources and targets that are
  node ids. Every graph satisfying the invariants of the specification is accepted, and
  every error returned names an invariant the graph violates.
\<close>

theorem validate_accepts_exactly:
  "(validateWorkflowStructure ns es = None \<longleftrightarrow> accepted_graph ns es) \<and>
   (spec_invariants ns es \<longrightarrow> validateWorkflowStructure ns es = None) \<and>
   (\<forall>err. validateWorkflowStructure ns es = Some err \<longrightarrow> violated_by err ns es)"
  using validate_None_iff[of ns es] spec_invariants_accepted[of ns es] validate_Some_cause[of ns es]
  by blast

text \<open>The theorem at the three-node graph start, form, end.\<close>

theorem validate_accepts_exactly_witness:
  "spec_invariants valid_nodes valid_edges \<and> accepted_graph valid_nodes valid_edges \<and>
   validateWorkflowStructure valid_nodes valid_edges = None"
proof -
  have s: "spec_invariants valid_nodes valid_edges"
    by (simp add: spec_invariants_def valid_nodes_def valid_edges_def is_start_def is_end_def
        nodes_wellformed_def edges_wellformed_def NodeType_defs)
  with validate_accepts_exactly[of valid_nodes valid_edges] show ?thesis by metis
qed

text \<open>
  Claim C2 as stated fails: a node list with two end-type nodes, the second of them last,
  is accepted.
\<close>

theorem two_end_nodes_accepted:
  "validateWorkflowStructure two_end_nodes [] = None \<and>
   length (filter is_end two_end_nodes) = 2 \<and> \<not> spec_invariants two_end_nodes []"
  by (simp add: validateWorkflowStructure_def two_end_nodes_def scan_init_def Let_def
      is_end_def spec_invariants_def NodeType_defs)







section \<open>Properties of the node variants\<close>


text \<open>
  Claim C6. For every input the form node returns a nil error and the status Completed;
  its output data holds the input's name, email, city, threshold and operator, unchanged,
  under \<open>formData\<close>, and name, email and city once more at the top level.
\<close>

theorem form_Execute_copies_input:
  "snd (form_Execute e n inputs) = None \<and>
   o_Status (fst (form_Execute e n inputs)) = StatusCompleted \<and>
   map_of (o_Data (fst (form_Execute e n inputs))) ''formData'' =
     Some (VMap [(''name'', VStr (i_Name (in_WorkflowInput inputs))),
                 (''email'', VStr (i_Email (in_WorkflowInput inputs))),
                 (''city'', VStr (i_City (in_WorkflowInput inputs))),
                 (''threshold'', VFloat (i_Threshold (in_WorkflowInput inputs))),
                 (''operator'', VStr (i_Operator (in_WorkflowInput inputs)))]) \<and>
   map_of (o_Data (fst (form_Execute e n inputs))) ''name'' = Some (VStr (i_Name (in_WorkflowInput inputs))) \<and>
   map_of (o_Data (fst (form_Execute e n inputs))) ''email'' = Some (VStr (i_Email (in_WorkflowInput inputs))) \<and>
   map_of (o_Data (fst (form_Execute e n inputs))) ''city'' = Some (VStr (i_City (in_WorkflowInput inputs)))"
  by (simp add: form_Execute_def Let_def)

text \<open>
  With a numeric temperature under the key \<open>weather-api\<close> the condition node completes;
  its result is the comparison, its next node the route of that result.
\<close>

lemma condition_Execute_numeric:
  assumes "map_of (in_PriorOutputs inputs) NodeIDWeatherAPI = Some tempNode"
      and "map_of (o_Data tempNode) ''temperature'' = Some (VFloat temperature)"
  shows "snd (condition_Execute e config inputs) = None \<and>
         o_Status (fst (condition_Execute e config inputs)) = StatusCompleted \<and>
         condition_result (fst (condition_Execute e config inputs)) =
           Some (VBool (evaluate_condition (i_Operator (in_WorkflowInput inputs)) temperature
                          (i_Threshold (in_WorkflowInput inputs)))) \<and>
         o_NextNodeID (fst (condition_Execute e config inputs)) =
           (if evaluate_condition (i_Operator (in_WorkflowInput inputs)) temperature
                 (i_Threshold (in_WorkflowInput inputs))
            then cc_TrueRoute config else cc_FalseRoute config)"
  using assms by (simp add: condition_Execute_def Let_def condition_result_def)

text \<open>
  Claim C4. With threshold 20, operator \<open>greater_than\<close> and a prior \<open>weather-api\<close>
  output, a temperature of 25.5 gives the status Completed, the result true and the
  configured true-route as next node; a temperature of 15.5 gives the result false and the
  configured false-route.
\<close>

theorem condition_Execute_threshold_20:
  assumes "i_Threshold (in_WorkflowInput inputs) = 20"
      and "i_Operator (in_WorkflowInput inputs) = OperatorGreaterThan"
      and "map_of (in_PriorOutputs inputs) NodeIDWeatherAPI = Some tempNode"
  shows "(map_of (o_Data tempNode) ''temperature'' = Some (VFloat 25.5) \<longrightarrow>
            snd (condition_Execute e config inputs) = None \<and>
            o_Status (fst (condition_Execute e config inputs)) = StatusCompleted \<and>
            condition_result (fst (condition_Execute e config inputs)) = Some (VBool True) \<and>
            o_NextNodeID (fst (condition_Execute e config inputs)) = cc_TrueRoute config) \<and>
         (map_of (o_Data tempNode) ''temperature'' = Some (VFloat 15.5) \<longrightarrow>
            snd (condition_Execute e config inputs) = None \<and>
            o_Status (fst (condition_Execute e config inputs)) = StatusCompleted \<and>
            condition_result (fst (condition_Execute e config inputs)) = Some (VBool False) \<and>
            o_NextNodeID (fst (condition_Execute e config inputs)) = cc_FalseRoute config)"
proof (intro conjI impI)
  assume t: "map_of (o_Data tempNode) ''temperature'' = Some (VFloat 25.5)"
  have "evaluate_condition OperatorGreaterThan 25.5 20" by (simp add: evaluate_condition_def)
  with condition_Execute_numeric[OF assms(3) t, of e config] assms(1,2)
  show "snd (condition_Execute e config inputs) = None"
    "o_Status (fst (condition_Execute e config inputs)) = StatusCompleted"
    "condition_result (fst (condition_Execute e config inputs)) = Some (VBool True)"
    "o_NextNodeID (fst (condition_Execute e config inputs)) = cc_TrueRoute config"
    by simp_all
next
  assume t: "map_of (o_Data tempNode) ''temperature'' = Some (VFloat 15.5)"
  have "\<not> evaluate_condition OperatorGreaterThan 15.5 20" by (simp add: evaluate_condition_def)
  with condition_Execute_numeric[OF assms(3) t, of e config] assms(1,2)
  show "snd (condition_Execute e config inputs) = None"
    "o_Status (fst (condition_Execute e config inputs)) = StatusCompleted"
    "condition_result (fst (condition_Execute e config inputs)) = Some (VBool False)"
    "o_NextNodeID (fst (condition_Execute e config inputs)) = cc_FalseRoute config"
    by simp_all
qed

text \<open>The theorem at the sample inputs, with the routes \<open>email\<close> and \<open>end\<close>.\<close>

theorem condition_Execute_threshold_20_witness:
  "condition_result (fst (condition_Execute sample_env sample_config warm_inputs)) = Some (VBool True) \<and>
   o_NextNodeID (fst (condition_Execute sample_env sample_config warm_inputs)) = ''email'' \<and>
   condition_result (fst (condition_Execute sample_env sample_config mild_inputs)) = Some (VBool False) \<and>
   o_NextNodeID (fst (condition_Execute sample_env sample_config mild_inputs)) = ''end''"
proof -
  have a: "i_Threshold (in_WorkflowInput warm_inputs) = 20"
          "i_Operator (in_WorkflowInput warm_inputs) = OperatorGreaterThan"
          "map_of (in_PriorOutputs warm_inputs) NodeIDWeatherAPI =
             Some (completed_output [(''temperature'', VFloat 25.5), (''location'', VStr ''Sydney'')])"
    by (simp_all add: warm_inputs_def sample_input_def OperatorGreaterThan_def NodeIDWeatherAPI_def)
  have b: "i_Threshold (in_WorkflowInput mild_inputs) = 20"
          "i_Operator (in_WorkflowInput mild_inputs) = OperatorGreaterThan"
          "map_of (in_PriorOutputs mild_inputs) NodeIDWeatherAPI =
             Some (completed_output [(''temperature'', VFloat 15.5), (''location'', VStr ''Sydney'')])"
    by (simp_all add: mild_inputs_def sample_input_def OperatorGreaterThan_def NodeIDWeatherAPI_def)
  from condition_Execute_threshold_20[OF a, of sample_env sample_config]
       condition_Execute_threshold_20[OF b, of sample_env sample_config]
  show ?thesis by (simp add: completed_output_def sample_config_def)
qed

text \<open>
  Claim C10. For an operator that is none of the five tags and a numeric temperature, the
  condition node returns a nil error and the status Completed, with the result false and
  the configured false-route as next node.
\<close>

theorem condition_Execute_unknown_operator:
  assumes "\<not> recognized_operator (i_Operator (in_WorkflowInput inputs))"
      and "map_of (in_PriorOutputs inputs) NodeIDWeatherAPI = Some tempNode"
      and "map_of (o_Data tempNode) ''temperature'' = Some (VFloat temperature)"
  shows "snd (condition_Execute e config inputs) = None \<and>
         o_Status (fst (condition_Execute e config inputs)) = StatusCompleted \<and>
         condition_result (fst (condition_Execute e config inputs)) = Some (VBool False) \<and>
         o_NextNodeID (fst (condition_Execute e config inputs)) = cc_FalseRoute config"
proof -
  from assms(1) have "\<not> evaluate_condition (i_Operator (in_WorkflowInput inputs)) temperature
      (i_Threshold (in_WorkflowInput inputs))"
    by (simp add: recognized_operator_def evaluate_condition_def)
  with condition_Execute_numeric[OF assms(2,3), of e config] show ?thesis by simp
qed

text \<open>The theorem at the operator \<open>not_equals\<close>.\<close>

theorem condition_Execute_unknown_operator_witness:
  "snd (condition_Execute sample_env sample_config odd_operator_inputs) = None \<and>
   o_Status (fst (condition_Execute sample_env sample_config odd_operator_inputs)) = StatusCompleted \<and>
   condition_result (fst (condition_Execute sample_env sample_config odd_operator_inputs)) = Some (VBool False) \<and>
   o_NextNodeID (fst (condition_Execute sample_env sample_config odd_operator_inputs)) = ''end''"
proof -
  have a: "\<not> recognized_operator (i_Operator (in_WorkflowInput odd_operator_inputs))"
    by (simp add: odd_operator_inputs_def sample_input_def recognized_operator_def Operator_defs)
  have b: "map_of (in_PriorOutputs odd_operator_inputs) NodeIDWeatherAPI =
             Some (completed_output [(''temperature'', VFloat 25.5), (''location'', VStr ''Sydney'')])"
    by (simp add: odd_operator_inputs_def NodeIDWeatherAPI_def)
  have c: "map_of (o_Data (completed_output [(''temperature'', VFloat 25.5), (''location'', VStr ''Sydney'')]))
             ''temperature'' = Some (VFloat 25.5)"
    by (simp add: completed_output_def)
  from condition_Execute_unknown_operator[OF a b c, of sample_env sample_config]
  show ?thesis by (simp add: sample_config_def)
qed

lemma find_option_None: "find_option opts city = None \<longleftrightarrow> city \<notin> wo_City ` set opts"
  by (induction opts) auto

text \<open>
  Claim C7. When the form output's city is the city of no configured option, the
  integration node returns the status Failed with a non-nil error, its output's
  \<open>error\<close> entry is \<open>City not found: \<close> followed by the city, which contains
  \<open>City not found\<close>, and it sends no HTTP request.
\<close>

theorem integration_Execute_unknown_city:
  assumes "map_of (in_PriorOutputs inputs) NodeIDForm = Some formOutput"
      and "map_of (o_Data formOutput) ''city'' = Some (VStr city)"
      and "city \<notin> wo_City ` set (ic_Options config)"
  shows "\<exists>n' outputs err.
           integration_Execute e n config inputs = (n', outputs, Some err, []) \<and>
           o_Status outputs = StatusFailed \<and>
           map_of (o_Data outputs) ''error'' = Some (VStr (''City not found: '' @ city)) \<and>
           contains (''City not found: '' @ city) ''City not found''"
proof -
  have fo: "find_option (ic_Options config) city = None"
    using assms(3) by (simp add: find_option_None)
  have c: "contains (''City not found: '' @ city) ''City not found''"
    by (simp add: has_prefix_def)
  show ?thesis
    using assms(1,2) fo c by (simp add: integration_Execute_def Let_def)
qed

text \<open>The theorem at the city Nowhereville, with options for Sydney and Melbourne.\<close>

theorem integration_Execute_unknown_city_witness:
  "o_Status (fst (snd (integration_Execute sample_env weather_base sample_options nowhereville_inputs))) = StatusFailed \<and>
   map_of (o_Data (fst (snd (integration_Execute sample_env weather_base sample_options nowhereville_inputs)))) ''error''
     = Some (VStr ''City not found: Nowhereville'') \<and>
   fst (snd (snd (integration_Execute sample_env weather_base sample_options nowhereville_inputs))) \<noteq> None \<and>
   snd (snd (snd (integration_Execute sample_env weather_base sample_options nowhereville_inputs))) = []"
proof -
  have a: "map_of (in_PriorOutputs nowhereville_inputs) NodeIDForm =
      Some (completed_output [(''name'', VStr ''Ada''), (''email'', VStr ''ada@example.com''),
                              (''city'', VStr ''Nowhereville'')])"
    by (simp add: nowhereville_inputs_def NodeIDForm_def)
  have b: "map_of (o_Data (completed_output [(''name'', VStr ''Ada''), (''email'', VStr ''ada@example.com''),
                              (''city'', VStr ''Nowhereville'')])) ''city'' = Some (VStr ''Nowhereville'')"
    by (simp add: completed_output_def)
  have c: "''Nowhereville'' \<notin> wo_City ` set (ic_Options sample_options)"
    by (simp add: sample_options_def)
  from integration_Execute_unknown_city[OF a b c, of sample_env weather_base]
  show ?thesis by auto
qed

text \<open>What each node returns when the literal node id it reads is not among the prior outputs.\<close>

lemma integration_Execute_no_form:
  assumes "map_of (in_PriorOutputs inputs) NodeIDForm = None"
  shows "integration_Execute e n config inputs =
           (n, \<lparr>o_Data = [(''error'', VStr ''Failed to get form data'')], o_Status = StatusFailed,
                 o_StartedAt = env_now e, o_EndedAt = env_now e, o_NextNodeID = []\<rparr>,
            Some ''missing form data'', [])"
  using assms by (simp add: integration_Execute_def Let_def)

lemma condition_Execute_no_weather:
  assumes "map_of (in_PriorOutputs inputs) NodeIDWeatherAPI = None"
  shows "condition_Execute e config inputs =
           (\<lparr>o_Data = [(''error'', VStr ''Failed to get temperature'')], o_Status = StatusFailed,
              o_StartedAt = env_now e, o_EndedAt = env_now e, o_NextNodeID = []\<rparr>,
            Some ''missing temperature'')"
  using assms by (simp add: condition_Execute_def Let_def)

lemma email_Execute_no_condition:
  assumes "map_of (in_PriorOutputs inputs) NodeIDCondition = None"
  shows "email_Execute e vars template inputs =
           (email_failed e ''Failed to get condition result'', Some ''failed to get condition result'')"
  using assms by (simp add: email_Execute_def)

lemma email_Execute_no_form:
  assumes "map_of (in_PriorOutputs inputs) NodeIDCondition = Some conditionOutput"
      and "condition_result conditionOutput = Some (VBool True)"
      and "map_of (in_PriorOutputs inputs) NodeIDForm = None"
  shows "email_Execute e vars template inputs =
           (email_failed e ''Failed to get form data'', Some ''missing form data'')"
  using assms
  by (auto simp: email_Execute_def condition_result_def split: option.splits val.splits)

text \<open>The rendering of the alert template, for either order of its two variables.\<close>

lemma fmt_fixed_25_5: "fmt_fixed (Suc 0) (51 / 2) = ''25.5''"
  apply (simp add: fmt_fixed_def round_half_even_def Let_def)
  apply (simp add: digits.simps)
  done

lemma mset_two: 
  assumes "mset xs = mset [a, b]"
  shows "xs = [a, b] \<or> xs = [b, a]"
proof -
  from assms have len: "length xs = 2" by (metis length_Cons list.size(3) size_mset numeral_2_eq_2)
  then obtain x y where xs: "xs = [x, y]"
    by (cases xs; simp; cases "tl xs"; simp) 
  with assms show ?thesis by (auto simp: add_eq_conv_ex)
qed

lemma find_variable_all_agree:
  assumes "\<exists>p\<in>set outs. map_of (o_Data (snd p)) name = Some v"
      and "\<forall>p\<in>set outs. map_of (o_Data (snd p)) name = None \<or> map_of (o_Data (snd p)) name = Some v"
  shows "find_variable name outs = Some v"
  using assms
proof (induction outs)
  case Nil
  then show ?case by simp
next
  case (Cons p outs)
  obtain k out where p: "p = (k, out)" by (cases p)
  show ?case
  proof (cases "map_of (o_Data out) name")
    case None
    with Cons p show ?thesis by auto
  next
    case (Some x)
    with Cons.prems(2) p have "x = v" by auto
    with Some p show ?thesis by simp
  qed
qed

lemma find_variable_supplied:
  assumes "supplies prior name v" and "mset outs = mset prior"
  shows "find_variable name outs = Some v"
proof -
  from assms(2) have "set outs = set prior" by (rule mset_eq_setD)
  with assms(1) show ?thesis
    by (intro find_variable_all_agree) (simp_all add: supplies_def)
qed

lemma render_city_first:
  "replace_variables e (t_Body alert_template)
     [(''city'', VStr ''Sydney''), (''temperature'', VFloat 25.5)] = alert_body"
  by (simp add: alert_template_def alert_body_def degree_C_def has_prefix_def fmt_fixed_25_5)

lemma render_temperature_first:
  "replace_variables e (t_Body alert_template)
     [(''temperature'', VFloat 25.5), (''city'', VStr ''Sydney'')] = alert_body"
  by (simp add: alert_template_def alert_body_def degree_C_def has_prefix_def fmt_fixed_25_5)

lemma processTemplate_alert:
  assumes "range_is_permutation e"
  shows "processTemplate e k (t_Body alert_template)
           [(''city'', VStr ''Sydney''), (''temperature'', VFloat 25.5)] = alert_body"
proof -
  from assms have "mset (env_range_vars e k [(''city'', VStr ''Sydney''), (''temperature'', VFloat 25.5)])
      = mset [(''city'', VStr ''Sydney''), (''temperature'', VFloat 25.5)]"
    by (simp add: range_is_permutation_def)
  from mset_two[OF this] show ?thesis
    by (elim disjE) (simp_all only: processTemplate_def render_city_first render_temperature_first)
qed

lemma collect_city_temperature:
  assumes "range_is_permutation e"
      and "supplies prior ''city'' (VStr ''Sydney'')"
      and "supplies prior ''temperature'' (VFloat 25.5)"
  shows "collect_variables e 0 [''city'', ''temperature''] prior [] =
           Inr [(''city'', VStr ''Sydney''), (''temperature'', VFloat 25.5)]"
proof -
  from assms(1) have p: "\<And>k. mset (env_range_outputs e k prior) = mset prior"
    by (simp add: range_is_permutation_def)
  have c: "find_variable ''city'' (env_range_outputs e 0 prior) = Some (VStr ''Sydney'')"
    using find_variable_supplied[OF assms(2) p] .
  have t: "find_variable ''temperature'' (env_range_outputs e (Suc 0) prior) = Some (VFloat 25.5)"
    using find_variable_supplied[OF assms(3) p] .
  show ?thesis by (simp add: c t)
qed

text \<open>
  Claim C5. With a condition output whose result is true, a form output holding the
  recipient, the input variables \<open>city\<close> and \<open>temperature\<close>, the alert template as
  body, and prior outputs that supply the city Sydney and the temperature 25.5 (a float),
  the email node completes and the body in its \<open>emailContent\<close> is exactly the alert for
  Sydney at 25.5 degrees, in whatever order the runtime iterates over its maps.
\<close>

theorem email_Execute_renders_alert:
  assumes "range_is_permutation e"
      and "map_of (in_PriorOutputs inputs) NodeIDCondition = Some conditionOutput"
      and "condition_result conditionOutput = Some (VBool True)"
      and "map_of (in_PriorOutputs inputs) NodeIDForm = Some formOutput"
      and "map_of (o_Data formOutput) ''email'' = Some (VStr recipient)"
      and "supplies (in_PriorOutputs inputs) ''city'' (VStr ''Sydney'')"
      and "supplies (in_PriorOutputs inputs) ''temperature'' (VFloat 25.5)"
      and "t_Body template = t_Body alert_template"
  shows "snd (email_Execute e [''city'', ''temperature''] template inputs) = None \<and>
         o_Status (fst (email_Execute e [''city'', ''temperature''] template inputs)) = StatusCompleted \<and>
         email_body (fst (email_Execute e [''city'', ''temperature''] template inputs)) = Some (VStr alert_body)"
proof -
  from assms(3) obtain cr where cr: "map_of (o_Data conditionOutput) ''conditionResult'' = Some (VMap cr)"
      "map_of cr ''result'' = Some (VBool True)"
    by (auto simp: condition_result_def split: option.splits val.splits)
  note cv = collect_city_temperature[OF assms(1,6,7)]
  note pt = processTemplate_alert[OF assms(1), of 1]
  show ?thesis
    using assms(2,4,5,8) cr cv pt
    by (simp add: email_Execute_def PrepareAndStubSendEmail_def Let_def email_body_def)
qed

text \<open>The theorem at the outputs of a start, a form, a weather and a condition node.\<close>

theorem email_Execute_renders_alert_witness:
  "range_is_permutation sample_env \<and>
   email_body (fst (email_Execute sample_env [''city'', ''temperature''] alert_template alert_inputs))
     = Some (VStr alert_body) \<and>
   alert_body = ''Weather alert for Sydney! Temperature is 25.5'' @ [CHR 0xC2, CHR 0xB0] @ ''C!''"
proof -
  have p: "range_is_permutation sample_env"
    by (simp add: range_is_permutation_def sample_env_def)
  have c: "map_of (in_PriorOutputs alert_inputs) NodeIDCondition =
             Some (completed_output [(''conditionResult'', VMap [(''result'', VBool True)])])"
    by (simp add: alert_inputs_def NodeIDCondition_def)
  have r: "condition_result (completed_output [(''conditionResult'', VMap [(''result'', VBool True)])])
             = Some (VBool True)"
    by (simp add: condition_result_def completed_output_def)
  have f: "map_of (in_PriorOutputs alert_inputs) NodeIDForm =
             Some (completed_output [(''name'', VStr ''Ada''), (''email'', VStr ''ada@example.com''),
                                     (''city'', VStr ''Sydney'')])"
    by (simp add: alert_inputs_def NodeIDForm_def)
  have m: "map_of (o_Data (completed_output [(''name'', VStr ''Ada''), (''email'', VStr ''ada@example.com''),
                                     (''city'', VStr ''Sydney'')])) ''email'' = Some (VStr ''ada@example.com'')"
    by (simp add: completed_output_def)
  have s1: "supplies (in_PriorOutputs alert_inputs) ''city'' (VStr ''Sydney'')"
    by (simp add: supplies_def alert_inputs_def completed_output_def)
  have s2: "supplies (in_PriorOutputs alert_inputs) ''temperature'' (VFloat 25.5)"
    by (simp add: supplies_def alert_inputs_def completed_output_def)
  from email_Execute_renders_alert[OF p c r f m s1 s2 refl]
  show ?thesis using p by (simp add: alert_body_def degree_C_def)
qed

end
